theory Spec2Isabelle
  imports Main
begin

section \<open>Errors\<close>

text \<open>
  Every failure of the Go code is a value of one error type.  \<open>APIError\<close> is the
  structured error of \<^verbatim>\<open>simplemq/client.go\<close> (numeric code and message);
  \<open>ContextCanceled\<close> is \<^verbatim>\<open>context.Canceled\<close>; \<open>NetErrClosed\<close> is
  \<^verbatim>\<open>net.ErrClosed\<close>; \<open>Wrapped\<close> is \<^verbatim>\<open>fmt.Errorf("...: %w", err)\<close>.
\<close>

datatype error =
    ErrRequestNil
  | ErrTooLarge
  | ErrRead string
  | CorruptInputError
  | ErrNewRequest string
  | APIError int string
  | ContextCanceled
  | NetErrClosed
  | ErrUnexpectedEOF
  | ErrOther string
  | Wrapped string error

section \<open>Standard base64 (Go's \<^verbatim>\<open>base64.StdEncoding\<close>)\<close>

text \<open>
  Bytes and Go strings are both \<^typ>\<open>string\<close> (lists of 8-bit characters).
  The encoder packs three bytes into a 24-bit value and emits four 6-bit digits; shifts
  by \<open>k\<close> bits are written \<open>div 2 ^ k\<close> and the mask \<open>0x3F\<close> is \<open>mod 64\<close>.
  The decoder follows \<^verbatim>\<open>decodeQuantum\<close>: it skips CR and LF, requires padding,
  rejects trailing garbage after padding, and (not being in strict mode) ignores the
  unused low bits of a padded quantum.  The byte offset carried by Go's
  \<^verbatim>\<open>CorruptInputError\<close> is not modelled.
\<close>

definition encodeStd :: string where
  "encodeStd = ''ABCDEFGHIJKLMNOPQRSTUVWXYZabcdefghijklmnopqrstuvwxyz0123456789+/''"

definition encodeChar :: "nat \<Rightarrow> char" where
  "encodeChar i = encodeStd ! i"

definition decodeMap :: "char \<Rightarrow> nat option" where
  "decodeMap c = map_of (zip encodeStd [0..<64]) c"

definition padChar :: char where "padChar = CHR ''=''"

definition is_newline :: "char \<Rightarrow> bool" where
  "is_newline c = (c = CHR 0x0A \<or> c = CHR 0x0D)"

fun EncodeToString :: "string \<Rightarrow> string" where
  "EncodeToString (a # b # c # rest) =
     (let v = of_char a * 65536 + of_char b * 256 + of_char c in
        encodeChar (v div 262144 mod 64) # encodeChar (v div 4096 mod 64) #
        encodeChar (v div 64 mod 64) # encodeChar (v mod 64) # EncodeToString rest)"
| "EncodeToString [a, b] =
     (let v = of_char a * 65536 + of_char b * 256 in
        [encodeChar (v div 262144 mod 64), encodeChar (v div 4096 mod 64),
         encodeChar (v div 64 mod 64), padChar])"
| "EncodeToString [a] =
     (let v = of_char a * 65536 in
        [encodeChar (v div 262144 mod 64), encodeChar (v div 4096 mod 64), padChar, padChar])"
| "EncodeToString [] = []"

definition quantum_val :: "nat list \<Rightarrow> nat" where
  "quantum_val dbuf =
     (case dbuf @ [0, 0, 0, 0] of
        d0 # d1 # d2 # d3 # _ \<Rightarrow> d0 * 262144 + d1 * 4096 + d2 * 64 + d3
      | _ \<Rightarrow> 0)"

definition quantum_bytes :: "nat list \<Rightarrow> string" where
  "quantum_bytes dbuf =
     (let v = quantum_val dbuf in
        take (length dbuf - 1) [char_of (v div 65536), char_of (v div 256), char_of v])"

fun skip_newlines :: "string \<Rightarrow> string" where
  "skip_newlines [] = []"
| "skip_newlines (c # cs) = (if is_newline c then skip_newlines cs else c # cs)"

fun prepend :: "string \<Rightarrow> error + string \<Rightarrow> error + string" where
  "prepend bs (Inl e) = Inl e"
| "prepend bs (Inr r) = Inr (bs @ r)"

fun decode :: "nat list \<Rightarrow> string \<Rightarrow> error + string" where
  "decode dbuf [] = (if dbuf = [] then Inr [] else Inl CorruptInputError)"
| "decode dbuf (c # cs) =
     (case decodeMap c of
        Some out \<Rightarrow>
          (if length dbuf = 3 then prepend (quantum_bytes (dbuf @ [out])) (decode [] cs)
           else decode (dbuf @ [out]) cs)
      | None \<Rightarrow>
          if is_newline c then decode dbuf cs
          else if c \<noteq> padChar then Inl CorruptInputError
          else if length dbuf < 2 then Inl CorruptInputError
          else if length dbuf = 2 then
            (case skip_newlines cs of
               [] \<Rightarrow> Inl CorruptInputError
             | c' # cs' \<Rightarrow>
                 if c' \<noteq> padChar then Inl CorruptInputError
                 else if skip_newlines cs' \<noteq> [] then Inl CorruptInputError
                 else Inr (quantum_bytes dbuf))
          else if skip_newlines cs \<noteq> [] then Inl CorruptInputError
          else Inr (quantum_bytes dbuf))"

definition DecodeString :: "string \<Rightarrow> error + string" where
  "DecodeString s = decode [] s"

section \<open>Requests and the body-only serializer (\<^verbatim>\<open>serializer.go\<close>)\<close>

text \<open>
  A request body is an \<^verbatim>\<open>io.ReadCloser\<close>: reading it to the end yields its bytes
  or fails.  \<open>Header\<close> is an association list in insertion order
  (\<^verbatim>\<open>Header.Add\<close> appends).
\<close>

datatype ReadCloser = Reader string | ErrReader string

record Request =
  Method :: string
  URL :: string
  Header :: "(string \<times> string) list"
  Body :: "ReadCloser option"
  ContentLength :: int

record BodyOnlySerializer =
  NoBase64 :: bool

fun io_ReadAll :: "ReadCloser \<Rightarrow> error + string" where
  "io_ReadAll (Reader bs) = Inr bs"
| "io_ReadAll (ErrReader msg) = Inl (ErrRead msg)"

text \<open>
  \<^verbatim>\<open>http.NewRequest\<close> fails on a method that is not a token and on a URL that does
  not parse; of \<^verbatim>\<open>url.Parse\<close> only the control-character check is written out.
  With a \<^verbatim>\<open>strings.Reader\<close> body the content length is the string's length.
\<close>

definition token_chars :: string where
  "token_chars =
     ''!#$%&*+-.^_`|~0123456789abcdefghijklmnopqrstuvwxyzABCDEFGHIJKLMNOPQRSTUVWXYZ'' @ [CHR 0x27]"

definition is_token_char :: "char \<Rightarrow> bool" where
  "is_token_char c = (c \<in> set token_chars)"

definition validMethod :: "string \<Rightarrow> bool" where
  "validMethod m = (m \<noteq> [] \<and> list_all is_token_char m)"

definition is_ctl_byte :: "char \<Rightarrow> bool" where
  "is_ctl_byte c = ((of_char c :: nat) < 32 \<or> c = CHR 0x7F)"

definition http_NewRequest :: "string \<Rightarrow> string \<Rightarrow> string \<Rightarrow> error + Request" where
  "http_NewRequest method url body =
     (if \<not> validMethod method then Inl (ErrNewRequest ''net/http: invalid method'')
      else if list_ex is_ctl_byte url then
        Inl (ErrNewRequest ''net/url: invalid control character in URL'')
      else Inr \<lparr>Method = method, URL = url, Header = [],
                Body = Some (Reader body), ContentLength = int (length body)\<rparr>)"

definition MethodPost :: string where
  "MethodPost = ''POST''"

definition Serialize :: "BodyOnlySerializer \<Rightarrow> Request option \<Rightarrow> error + string" where
  "Serialize s rq =
     (case rq of
        None \<Rightarrow> Inl ErrRequestNil
      | Some r \<Rightarrow>
          (case Body r of
             None \<Rightarrow> Inr []
           | Some rc \<Rightarrow>
               (case io_ReadAll rc of
                  Inl err \<Rightarrow> Inl err
                | Inr bs \<Rightarrow>
                    if NoBase64 s then
                      (if length bs > 256 * 1024 then Inl ErrTooLarge else Inr bs)
                    else
                      (let encoded = EncodeToString bs in
                         if length encoded > 256 * 1024 then Inl ErrTooLarge
                         else Inr encoded))))"

definition Deserialize :: "BodyOnlySerializer \<Rightarrow> string \<Rightarrow> error + Request" where
  "Deserialize s content =
     (let content' =
            (if \<not> NoBase64 s then
               (case DecodeString content of
                  Inr decoded \<Rightarrow> decoded
                | Inl err \<Rightarrow> content)
             else content)
      in http_NewRequest MethodPost ''/'' content')"

text \<open>The bytes a handler reads from a request's body (none when the body is nil).\<close>

definition body_bytes :: "Request \<Rightarrow> error + string" where
  "body_bytes r = (case Body r of None \<Rightarrow> Inr [] | Some rc \<Rightarrow> io_ReadAll rc)"

text \<open>
  The request body after the default serializer's encoding: the raw bytes without
  base64, their standard base64 text otherwise.
\<close>

definition encoded_body :: "BodyOnlySerializer \<Rightarrow> string \<Rightarrow> string" where
  "encoded_body s bs = (if NoBase64 s then bs else EncodeToString bs)"


text \<open>A small request used to run the serializer on a concrete input.\<close>

definition tiny_request :: Request where
  "tiny_request = \<lparr>Method = ''POST'', URL = ''/api/items'', Header = [],
     Body = Some (Reader ''hi''), ContentLength = 2\<rparr>"

section \<open>Queue messages, time and the queue client (\<^verbatim>\<open>simplemq/\<close>)\<close>

text \<open>
  \<^verbatim>\<open>simplemq.Message\<close>: the timestamps are \<^verbatim>\<open>int64\<close> Unix milliseconds.
\<close>

record Message =
  ID :: string
  Content :: string
  CreatedAt :: int
  UpdatedAt :: int
  ExpiresAt :: int
  AcquiredAt :: int
  VisibilityTimeoutAt :: int

text \<open>
  An instant (\<^verbatim>\<open>time.Time\<close>) is its Unix time in nanoseconds; a
  \<^verbatim>\<open>time.Duration\<close> is an \<^verbatim>\<open>int64\<close> count of nanoseconds.
  \<^verbatim>\<open>Time.Sub\<close> saturates at the ends of \<^verbatim>\<open>int64\<close>, while
  multiplying durations wraps around.
\<close>

definition time_UnixMilli :: "int \<Rightarrow> int" where
  "time_UnixMilli ms = ms * 1000000"

definition CreatedTime :: "Message \<Rightarrow> int" where
  "CreatedTime m = time_UnixMilli (CreatedAt m)"

definition VisibilityTimeoutTime :: "Message \<Rightarrow> int" where
  "VisibilityTimeoutTime m = time_UnixMilli (VisibilityTimeoutAt m)"

definition minDuration :: int where
  "minDuration = - (2 ^ 63)"

definition maxDuration :: int where
  "maxDuration = 2 ^ 63 - 1"

definition time_Sub :: "int \<Rightarrow> int \<Rightarrow> int" where
  "time_Sub t u = (if t - u < minDuration then minDuration
                   else if maxDuration < t - u then maxDuration else t - u)"

definition wrap64 :: "int \<Rightarrow> int" where
  "wrap64 x = (x + 2 ^ 63) mod 2 ^ 64 - 2 ^ 63"

definition time_Second :: int where
  "time_Second = 1000000000"




text \<open>
  The world outside the adapter: the wall clock and the queue service.  A run of the
  adapter is sequential, so the world is a script: what the \<open>k\<close>-th reading of the
  clock shows and what the \<open>k\<close>-th call of each queue operation answers.  \<open>calls\<close>
  logs what the adapter did to the world, oldest first.
\<close>

datatype call =
    CallSend string
  | CallReceive
  | CallDelete string
  | CallExtend string
  | Sleep int
  | CancelWait

record World =
  clock :: "nat \<Rightarrow> int"
  reads :: nat
  send_replies :: "nat \<Rightarrow> error + Message"
  receive_replies :: "nat \<Rightarrow> error + Message list"
  delete_replies :: "nat \<Rightarrow> error option"
  extend_replies :: "nat \<Rightarrow> error + Message"
  calls :: "call list"

fun is_send :: "call \<Rightarrow> bool" where
  "is_send (CallSend _) = True"
| "is_send _ = False"

fun is_receive :: "call \<Rightarrow> bool" where
  "is_receive CallReceive = True"
| "is_receive _ = False"

fun is_delete :: "call \<Rightarrow> bool" where
  "is_delete (CallDelete _) = True"
| "is_delete _ = False"

fun is_extend :: "call \<Rightarrow> bool" where
  "is_extend (CallExtend _) = True"
| "is_extend _ = False"

definition time_Now :: "World \<Rightarrow> int \<times> World" where
  "time_Now w = (clock w (reads w), w\<lparr>reads := Suc (reads w)\<rparr>)"

definition time_Until :: "World \<Rightarrow> int \<Rightarrow> int \<times> World" where
  "time_Until w t = (case time_Now w of (now, w') \<Rightarrow> (time_Sub t now, w'))"


definition SendMessage :: "World \<Rightarrow> string \<Rightarrow> (error + Message) \<times> World" where
  "SendMessage w content =
     (send_replies w (length (filter is_send (calls w))),
      w\<lparr>calls := calls w @ [CallSend content]\<rparr>)"

definition ReceiveMessages :: "World \<Rightarrow> (error + Message list) \<times> World" where
  "ReceiveMessages w =
     (receive_replies w (length (filter is_receive (calls w))),
      w\<lparr>calls := calls w @ [CallReceive]\<rparr>)"

definition DeleteMessage :: "World \<Rightarrow> string \<Rightarrow> error option \<times> World" where
  "DeleteMessage w mid =
     (delete_replies w (length (filter is_delete (calls w))),
      w\<lparr>calls := calls w @ [CallDelete mid]\<rparr>)"

definition ExtendVisibilityTimeout :: "World \<Rightarrow> string \<Rightarrow> (error + Message) \<times> World" where
  "ExtendVisibilityTimeout w mid =
     (extend_replies w (length (filter is_extend (calls w))),
      w\<lparr>calls := calls w @ [CallExtend mid]\<rparr>)"

section \<open>Responses and the library calls of \<^verbatim>\<open>Close\<close>\<close>

text \<open>
  \<^verbatim>\<open>http.Response\<close>, as far as the adapter looks at it: the status code and the
  header, a Go map from canonical keys to their values.  \<open>RespBody\<close> stands for
  whatever else the response holds; the adapter never looks at it.
\<close>

record Response =
  StatusCode :: int
  RespHeader :: "string \<Rightarrow> string list option"
  RespBody :: string

text \<open>
  \<^verbatim>\<open>textproto.CanonicalMIMEHeaderKey\<close>: a key made of token characters gets an
  upper-case letter first and after every hyphen and lower-case letters elsewhere; any
  other key is left as it is.
\<close>

definition to_upper :: "char \<Rightarrow> char" where
  "to_upper c = (if 97 \<le> (of_char c :: nat) \<and> (of_char c :: nat) \<le> 122
                 then char_of ((of_char c :: nat) - 32) else c)"

definition to_lower :: "char \<Rightarrow> char" where
  "to_lower c = (if 65 \<le> (of_char c :: nat) \<and> (of_char c :: nat) \<le> 90
                 then char_of ((of_char c :: nat) + 32) else c)"

fun canonical_from :: "bool \<Rightarrow> string \<Rightarrow> string" where
  "canonical_from upper [] = []"
| "canonical_from upper (c # cs) =
     (if upper then to_upper c else to_lower c) # canonical_from (c = CHR ''-'') cs"

definition CanonicalMIMEHeaderKey :: "string \<Rightarrow> string" where
  "CanonicalMIMEHeaderKey k = (if list_all is_token_char k then canonical_from True k else k)"

text \<open>\<^verbatim>\<open>Header.Get\<close>: the first value under the canonical form of the key, or empty.\<close>

definition Header_Get :: "(string \<Rightarrow> string list option) \<Rightarrow> string \<Rightarrow> string" where
  "Header_Get h key =
     (case h (CanonicalMIMEHeaderKey key) of
        None \<Rightarrow> []
      | Some [] \<Rightarrow> []
      | Some (v # vs) \<Rightarrow> v)"

text \<open>
  \<^verbatim>\<open>strconv.Atoi\<close> on a 64-bit platform: an optional sign and at least one
  decimal digit; a value outside \<^verbatim>\<open>int64\<close> is a range error.
\<close>

definition is_digit :: "char \<Rightarrow> bool" where
  "is_digit c = (48 \<le> (of_char c :: nat) \<and> (of_char c :: nat) \<le> 57)"

definition digits_val :: "string \<Rightarrow> int" where
  "digits_val ds = foldl (\<lambda>n c. n * 10 + (int (of_char c) - 48)) 0 ds"

definition Atoi :: "string \<Rightarrow> error + int" where
  "Atoi s =
     (let neg = (s \<noteq> [] \<and> hd s = CHR ''-'');
          ds = (if s \<noteq> [] \<and> (hd s = CHR ''-'' \<or> hd s = CHR ''+'') then tl s else s)
      in if ds = [] \<or> \<not> list_all is_digit ds then
           Inl (ErrOther ''strconv.Atoi: invalid syntax'')
         else
           (let v = (if neg then - digits_val ds else digits_val ds)
            in if v < - (2 ^ 63) \<or> 2 ^ 63 - 1 < v then
                 Inl (ErrOther ''strconv.Atoi: value out of range'')
               else Inr v))"

section \<open>The message stream (\<^verbatim>\<open>conn.go\<close>)\<close>

text \<open>
  A serializer is the interface of \<^verbatim>\<open>serializer.go\<close>.
\<close>

record Serializer =
  serialize :: "Request option \<Rightarrow> error + string"
  deserialize :: "string \<Rightarrow> error + Request"

definition BodyOnly :: "BodyOnlySerializer \<Rightarrow> Serializer" where
  "BodyOnly s = \<lparr>serialize = Serialize s, deserialize = Deserialize s\<rparr>"

text \<open>
  \<^verbatim>\<open>HandleResponse(resp, req)\<close>.  A handler may read \<^verbatim>\<open>resp.Body\<close>, which pulls
  further bytes out of the stream's response buffer; so a handler is given what is left
  of that buffer and returns its verdict (\<open>None\<close> for no error) and what it leaves.
\<close>

type_synonym ResponseHandler =
  "Response \<Rightarrow> Request option \<Rightarrow> string \<Rightarrow> error option \<times> string"

text \<open>
  Three operations of Go's library are parameters of the model, since their code is not
  part of the repository:
  \<^item> \<open>format_RFC3339\<close>, the RFC 3339 text of an instant in the local time zone;
  \<^item> \<open>request_write\<close>, the bytes \<^verbatim>\<open>Request.Write\<close> renders for a request, or its
    error;
  \<^item> \<open>read_response\<close>, \<^verbatim>\<open>http.ReadResponse\<close> through a fresh
    \<^verbatim>\<open>bufio.Reader\<close> on a byte buffer, for the given request: the response or the
    error, and the bytes that are left in the buffer behind the reader.
\<close>

record GoLib =
  format_RFC3339 :: "int \<Rightarrow> string"
  request_write :: "Request \<Rightarrow> error + string"
  read_response :: "Request option \<Rightarrow> string \<Rightarrow> (error + Response) \<times> string"

text \<open>
  \<^verbatim>\<open>Conn\<close>.  \<open>queue\<close> is \<^verbatim>\<open>client.Queue\<close>.  \<open>extendCancel\<close> tells whether the
  cancel function is set; \<open>renewing\<close> whether the renewal goroutine is alive.  What the
  goroutine did before it was stopped (calls to the queue, a new lease deadline in
  \<open>msg\<close>, an error in \<open>extendErr\<close>) is part of the state a method starts from.
\<close>

record Conn =
  addr :: string
  msg :: Message
  queue :: string
  extendCancel :: bool
  renewing :: bool
  extendErr :: "error option"
  reqBytes :: string
  initErr :: "error option"
  req :: "Request option"
  respBuffer :: string
  respHandler :: "ResponseHandler option"

definition Header_Add :: "(string \<times> string) list \<Rightarrow> string \<Rightarrow> string \<Rightarrow> (string \<times> string) list" where
  "Header_Add h k v = h @ [(CanonicalMIMEHeaderKey k, v)]"

definition init :: "GoLib \<Rightarrow> Serializer \<Rightarrow> Conn \<Rightarrow> Conn" where
  "init g ser c0 =
     (let c = c0\<lparr>extendCancel := True\<rparr> in
        case deserialize ser (Content (msg c)) of
          Inl err \<Rightarrow> c\<lparr>initErr := Some err\<rparr>
        | Inr r0 \<Rightarrow>
            (let h1 = Header_Add (Header r0) ''SimpleMQ-Message-ID'' (ID (msg c));
                 h2 = Header_Add h1 ''SimpleMQ-Message-Created''
                        (format_RFC3339 g (CreatedTime (msg c)));
                 h3 = Header_Add h2 ''SimpleMQ-Message-Visibility-Timeout''
                        (format_RFC3339 g (VisibilityTimeoutTime (msg c)));
                 h4 = Header_Add h3 ''SimpleMQ-Queue-Name'' (queue c);
                 r = r0\<lparr>Header := h4\<rparr>;
                 c1 = c\<lparr>renewing := True, req := Some r\<rparr>
             in case request_write g r of
                  Inl err \<Rightarrow> c1\<lparr>initErr := Some err\<rparr>
                | Inr bs \<Rightarrow> c1\<lparr>reqBytes := bs\<rparr>))"

definition newConn :: "GoLib \<Rightarrow> string \<Rightarrow> Message \<Rightarrow> Serializer \<Rightarrow> string \<Rightarrow> Conn" where
  "newConn g a m ser q =
     init g ser \<lparr>addr = a, msg = m, queue = q, extendCancel = False, renewing = False,
                extendErr = None, reqBytes = [], initErr = None, req = None,
                respBuffer = [], respHandler = None\<rparr>"

text \<open>\<^verbatim>\<open>Read\<close> into a buffer of \<open>n\<close> bytes: the bytes read or the error, and the stream.\<close>

definition Read :: "Conn \<Rightarrow> nat \<Rightarrow> (error + string) \<times> Conn" where
  "Read c n =
     (case initErr c of
        Some err \<Rightarrow> (Inl (Wrapped ''failed to initialize connection'' err), c)
      | None \<Rightarrow>
          (case extendErr c of
             Some err \<Rightarrow> (Inl (Wrapped ''failed to extend visibility timeout'' err), c)
           | None \<Rightarrow>
               if reqBytes c = [] then (Inl NetErrClosed, c)
               else (Inr (take n (reqBytes c)), c\<lparr>reqBytes := drop n (reqBytes c)\<rparr>)))"

definition Write :: "Conn \<Rightarrow> string \<Rightarrow> (error + nat) \<times> Conn" where
  "Write c b =
     (case extendErr c of
        Some err \<Rightarrow> (Inl (Wrapped ''failed to extend visibility timeout'' err), c)
      | None \<Rightarrow>
          if b = [] then (Inr 0, c)
          else (Inr (length b), c\<lparr>respBuffer := respBuffer c @ b\<rparr>))"

text \<open>
  Cancelling the renewal and waiting for its goroutine, the first step of
  \<^verbatim>\<open>Close\<close> and \<^verbatim>\<open>SetDeadline\<close>.
\<close>

definition cancel_and_wait :: "World \<Rightarrow> Conn \<Rightarrow> World \<times> Conn" where
  "cancel_and_wait w c =
     (if extendCancel c then (w\<lparr>calls := calls w @ [CancelWait]\<rparr>, c\<lparr>renewing := False\<rparr>)
      else (w, c))"

text \<open>The log of calls once a method has taken that first step.\<close>

definition joined :: "World \<Rightarrow> Conn \<Rightarrow> call list" where
  "joined w c = calls w @ (if extendCancel c then [CancelWait] else [])"

definition set_lease :: "Conn \<Rightarrow> Message \<Rightarrow> Conn" where
  "set_lease c extendedMsg =
     c\<lparr>msg := (msg c)\<lparr>VisibilityTimeoutAt := VisibilityTimeoutAt extendedMsg\<rparr>\<rparr>"

text \<open>
  The loop of the \<^verbatim>\<open>Retry-After\<close> branch of \<^verbatim>\<open>Close\<close>.  It has no bound on
  its iterations, so it is a partial function: \<open>None\<close> means that it does not return.
\<close>

partial_function (option) retryAfterLoop :: "int \<Rightarrow> World \<Rightarrow> Conn \<Rightarrow> (World \<times> Conn) option" where
  "retryAfterLoop d w c =
     (case time_Until w (VisibilityTimeoutTime (msg c)) of
        (remaining, w1) \<Rightarrow>
          if remaining < d then
            (case ExtendVisibilityTimeout w1 (ID (msg c)) of
               (Inl err, w2) \<Rightarrow> Some (w2, c)
             | (Inr extendedMsg, w2) \<Rightarrow> retryAfterLoop d w2 (set_lease c extendedMsg))
          else Some (w1, c))"

text \<open>
  Reading the loop off the script.  \<open>n_extend\<close> counts the extend calls made so far.
  \<open>lease_at w c i\<close> is the lease deadline held at the loop's \<open>i\<close>-th test when
  every extend call before it succeeded: the stream's own for \<open>i = 0\<close>, then the one
  the previous reply carried.  The loop is settled at its \<open>i\<close>-th test when the lease
  then lies at least \<open>d\<close> beyond the clock, or when the extend call that would
  follow fails.
\<close>

definition n_extend :: "World \<Rightarrow> nat" where
  "n_extend w = length (filter is_extend (calls w))"



text \<open>
  \<open>step_world\<close> is the world after one full iteration (a clock reading and an extend
  call).  \<open>retry_post\<close> is what holds when the loop has returned after \<open>n\<close> extend
  calls: the log grew by those calls, only the clock position and the log of the world
  and only the lease deadline of the stream changed, and either the last test found the
  lease at least \<open>d\<close> beyond the clock or the last extend call failed.
\<close>

definition step_world :: "World \<Rightarrow> Conn \<Rightarrow> World" where
  "step_world w c = w\<lparr>reads := Suc (reads w), calls := calls w @ [CallExtend (ID (msg c))]\<rparr>"


text \<open>
  The response handler's verdict and what it leaves of the response buffer; without a
  handler there is no error and the buffer stays as it is.
\<close>

definition observe :: "Conn \<Rightarrow> Response \<Rightarrow> string \<Rightarrow> error option \<times> string" where
  "observe c resp rest =
     (case respHandler c of None \<Rightarrow> (None, rest) | Some h \<Rightarrow> h resp (req c) rest)"

definition status_is_2xx :: "int \<Rightarrow> bool" where
  "status_is_2xx statusCode = (200 \<le> statusCode \<and> statusCode < 300)"

definition Close :: "GoLib \<Rightarrow> World \<Rightarrow> Conn \<Rightarrow> (error option \<times> World \<times> Conn) option" where
  "Close g w0 c0 =
     (case cancel_and_wait w0 c0 of
        (w, c) \<Rightarrow>
          if respBuffer c = [] then Some (None, w, c)
          else
            (case read_response g (req c) (respBuffer c) of
               (Inl err, rest) \<Rightarrow>
                 Some (Some (Wrapped ''failed to serialize response'' err), w,
                       c\<lparr>respBuffer := rest\<rparr>)
             | (Inr resp, rest) \<Rightarrow>
                 (let statusCode = StatusCode resp in
                    case observe c resp rest of
                      (Some err, rest') \<Rightarrow>
                        Some (Some (Wrapped ''failed to handle response'' err), w,
                              c\<lparr>respBuffer := rest'\<rparr>)
                    | (None, rest') \<Rightarrow>
                        (let c1 = c\<lparr>respBuffer := rest'\<rparr> in
                           if status_is_2xx statusCode then
                             (case DeleteMessage w (ID (msg c1)) of
                                (Some err, w1) \<Rightarrow>
                                  Some (Some (Wrapped ''failed to delete message'' err), w1, c1)
                              | (None, w1) \<Rightarrow> Some (None, w1, c1))
                           else
                             (let retryAfter = Header_Get (RespHeader resp) ''Retry-After'' in
                                if retryAfter \<noteq> [] then
                                  (case Atoi retryAfter of
                                     Inl err \<Rightarrow> Some (None, w, c1)
                                   | Inr seconds \<Rightarrow>
                                       (case retryAfterLoop (wrap64 (seconds * time_Second)) w c1 of
                                          None \<Rightarrow> None
                                        | Some (w', c') \<Rightarrow> Some (None, w', c')))
                                else Some (None, w, c1))))))"












section \<open>Concrete worlds and streams\<close>

text \<open>
  A message acquired at second 1000 with a 30 second lease, a clock that starts there
  and advances one millisecond per reading, and a stream on that message into which a
  handler has written some bytes.
\<close>

definition example_msg :: Message where
  "example_msg = \<lparr>ID = ''m1'', Content = ''aGk='', CreatedAt = 1000000, UpdatedAt = 1000000,
     ExpiresAt = 0, AcquiredAt = 1000000, VisibilityTimeoutAt = 1030000\<rparr>"

definition example_world :: "(nat \<Rightarrow> error option) \<Rightarrow> (nat \<Rightarrow> error + Message) \<Rightarrow> World" where
  "example_world dr er =
     \<lparr>clock = (\<lambda>k. 1000000000000 + int k * 1000000), reads = 0,
      send_replies = (\<lambda>k. Inl ContextCanceled), receive_replies = (\<lambda>k. Inr []),
      delete_replies = dr, extend_replies = er, calls = []\<rparr>"

definition example_conn :: "string \<Rightarrow> ResponseHandler option \<Rightarrow> Conn" where
  "example_conn written h =
     \<lparr>addr = ''q'', msg = example_msg, queue = ''q'', extendCancel = True, renewing = True,
      extendErr = None, reqBytes = [], initErr = None, req = None,
      respBuffer = written, respHandler = h\<rparr>"

definition not_found :: error where
  "not_found = APIError 404 ''Message not found''"


definition rejecting_handler :: ResponseHandler where
  "rejecting_handler resp rq rest = (Some (ErrOther ''rejected''), rest)"

text \<open>
  Response bytes a handler may write, and the responses \<^verbatim>\<open>http.ReadResponse\<close>
  makes of them: a bare 200, a 503 that asks to retry after 60 seconds, and a 503 that
  names a date to retry after.
\<close>

definition CRLF :: string where
  "CRLF = [CHR 0x0D, CHR 0x0A]"

definition response_200 :: string where
  "response_200 = ''HTTP/1.1 200 OK'' @ CRLF @ CRLF"

definition parsed_200 :: "string \<Rightarrow> Response" where
  "parsed_200 body = \<lparr>StatusCode = 200, RespHeader = Map.empty, RespBody = body\<rparr>"

definition response_503 :: string where
  "response_503 = ''HTTP/1.1 503 Service Unavailable'' @ CRLF @ ''Retry-After: 60'' @ CRLF @ CRLF"

definition parsed_503 :: Response where
  "parsed_503 = \<lparr>StatusCode = 503, RespHeader = [''Retry-After'' \<mapsto> [''60'']], RespBody = []\<rparr>"

text \<open>
  A library whose \<open>read_response\<close> is given by a table from buffer contents to results;
  a buffer that is not in the table ends unexpectedly.
\<close>

definition table_lib :: "(string \<times> (error + Response) \<times> string) list \<Rightarrow> GoLib" where
  "table_lib tbl =
     \<lparr>format_RFC3339 = (\<lambda>t. ''1970-01-01T00:00:00Z''),
      request_write = (\<lambda>r. case body_bytes r of
                               Inl err \<Rightarrow> Inl err
                             | Inr bs \<Rightarrow> Inr (Method r @ '' '' @ URL r @ '' HTTP/1.1'' @ CRLF @ CRLF @ bs)),
      read_response = (\<lambda>rq b. case map_of tbl b of
                                 Some r \<Rightarrow> r
                               | None \<Rightarrow> (Inl ErrUnexpectedEOF, []))\<rparr>"

definition response_503_date :: string where
  "response_503_date =
     ''HTTP/1.1 503 Service Unavailable'' @ CRLF @
     ''Retry-After: Wed, 21 Oct 2015 07:28:00 GMT'' @ CRLF @ CRLF"

definition parsed_503_date :: Response where
  "parsed_503_date =
     \<lparr>StatusCode = 503, RespHeader = [''Retry-After'' \<mapsto> [''Wed, 21 Oct 2015 07:28:00 GMT'']],
      RespBody = []\<rparr>"

definition example_lib :: GoLib where
  "example_lib = table_lib [(response_200, Inr (parsed_200 []), []),
                            (response_503, Inr parsed_503, []),
                            (response_503_date, Inr parsed_503_date, [])]"






section \<open>Base64 round trip\<close>

lemma len_std: "length encodeStd = 64" by (simp add: encodeStd_def)
lemma dist_std: "distinct encodeStd" by (simp add: encodeStd_def)

lemma decodeMap_encodeChar: "i < 64 \<Longrightarrow> decodeMap (encodeChar i) = Some i"
  unfolding decodeMap_def encodeChar_def
  using map_of_zip_nth[of encodeStd "[0..<64]" i] len_std dist_std by simp

lemma decodeMap_mod [simp]: "decodeMap (encodeChar (n mod 64)) = Some (n mod 64)"
  by (rule decodeMap_encodeChar) simp

lemma decodeMap_pad [simp]: "decodeMap padChar = None"
  by (simp add: decodeMap_def padChar_def encodeStd_def)

lemma pad_not_newline [simp]: "\<not> is_newline padChar"
  by (simp add: is_newline_def padChar_def)

lemma of_char_lt: "of_char (c::char) < (256::nat)"
  by (metis of_char_mod_256 mod_less_divisor zero_less_numeral)
 

lemma base64_digits:
  fixes v :: nat
  assumes "v < 16777216"
  shows "(v div 262144 mod 64) * 262144 + (v div 4096 mod 64) * 4096 + (v div 64 mod 64) * 64 + v mod 64 = v"
proof -
  define q1 where "q1 = v div 64"
  define q2 where "q2 = v div 4096"
  define q3 where "q3 = v div 262144"
  have q12: "q2 = q1 div 64" unfolding q1_def q2_def by (simp add: div_mult2_eq[symmetric])
  have q23: "q3 = q2 div 64" unfolding q3_def q2_def by (simp add: div_mult2_eq[symmetric])
  have a: "v = q1 * 64 + v mod 64" unfolding q1_def by simp
  have b: "q1 = q2 * 64 + q1 mod 64" unfolding q12 by simp
  have c: "q2 = q3 * 64 + q2 mod 64" unfolding q23 by simp
  have "q3 < 64" unfolding q3_def using assms by simp
  then have d: "q3 mod 64 = q3" by simp
  have "q3 mod 64 * 262144 + q2 mod 64 * 4096 + q1 mod 64 * 64 + v mod 64 = v"
    using a b c d by linarith
  then show ?thesis unfolding q1_def q2_def q3_def .
qed

lemma divmod_256:
  fixes x c :: nat
  assumes "c < 256"
  shows "(x * 256 + c) div 256 = x" and "(x * 256 + c) mod 256 = c"
  using assms by simp_all

lemma bytes_of_val:
  fixes a b c :: nat
  assumes "b < 256" "c < 256"
  shows "(a * 65536 + b * 256 + c) div 65536 = a"
    and "(a * 65536 + b * 256 + c) div 256 mod 256 = b"
    and "(a * 65536 + b * 256 + c) mod 256 = c"
proof -
  define x where "x = a * 256 + b"
  have e: "a * 65536 + b * 256 + c = x * 256 + c" by (simp add: x_def)
  have h1: "(x * 256 + c) div 256 = x" using assms(2) by (rule divmod_256)
  have h2: "(x * 256 + c) mod 256 = c" using assms(2) by (rule divmod_256)
  have h3: "x div 256 = a" unfolding x_def using assms(1) by (rule divmod_256)
  have h4: "x mod 256 = b" unfolding x_def using assms(1) by (rule divmod_256)
  show "(a * 65536 + b * 256 + c) mod 256 = c" unfolding e by (rule h2)
  show "(a * 65536 + b * 256 + c) div 256 mod 256 = b" unfolding e h1 by (rule h4)
  have "(x * 256 + c) div 65536 = (x * 256 + c) div 256 div 256"
    by (simp add: div_mult2_eq[symmetric])
  then show "(a * 65536 + b * 256 + c) div 65536 = a" unfolding e h1 h3 .
qed


lemma of_char_val_lt:
  "of_char (a::char) * 65536 + of_char (b::char) * 256 + of_char (c::char) < (16777216::nat)"
  using of_char_lt[of a] of_char_lt[of b] of_char_lt[of c] by linarith

lemma decode_quantum4:
  "decode [] (encodeChar (i0 mod 64) # encodeChar (i1 mod 64) # encodeChar (i2 mod 64) #
              encodeChar (i3 mod 64) # rest) =
   prepend (quantum_bytes [i0 mod 64, i1 mod 64, i2 mod 64, i3 mod 64]) (decode [] rest)"
  by simp

lemma decode_quantum3:
  "decode [] [encodeChar (i0 mod 64), encodeChar (i1 mod 64), encodeChar (i2 mod 64), padChar] =
   Inr (quantum_bytes [i0 mod 64, i1 mod 64, i2 mod 64])"
  by simp

lemma decode_quantum2:
  "decode [] [encodeChar (i0 mod 64), encodeChar (i1 mod 64), padChar, padChar] =
   Inr (quantum_bytes [i0 mod 64, i1 mod 64])"
  by simp

lemma quantum_val4: "quantum_val [d0, d1, d2, d3] = d0 * 262144 + d1 * 4096 + d2 * 64 + d3"
  by (simp add: quantum_val_def)

lemma quantum_val3: "quantum_val [d0, d1, d2] = d0 * 262144 + d1 * 4096 + d2 * 64"
  by (simp add: quantum_val_def)

lemma quantum_val2: "quantum_val [d0, d1] = d0 * 262144 + d1 * 4096"
  by (simp add: quantum_val_def)

lemma quantum_bytes4:
  fixes a b c :: char
  defines "v \<equiv> (of_char a * 65536 + of_char b * 256 + of_char c :: nat)"
  shows "quantum_bytes [v div 262144 mod 64, v div 4096 mod 64, v div 64 mod 64, v mod 64] = [a, b, c]"
proof -
  have lt: "v < 16777216" unfolding v_def by (rule of_char_val_lt)
  have qv: "quantum_val [v div 262144 mod 64, v div 4096 mod 64, v div 64 mod 64, v mod 64] = v"
    unfolding quantum_val4 by (rule base64_digits[OF lt])
  have b1: "v div 65536 = of_char a" unfolding v_def
    by (rule bytes_of_val(1)[OF of_char_lt of_char_lt])
  have b2: "v div 256 mod 256 = of_char b" unfolding v_def
    by (rule bytes_of_val(2)[OF of_char_lt of_char_lt])
  have b3: "v mod 256 = of_char c" unfolding v_def
    by (rule bytes_of_val(3)[OF of_char_lt of_char_lt])
  have c2: "char_of (v div 256) = b"
    using b2 by (metis char_of_quasi_inj mod_mod_trivial char_of_char)
  have c3: "char_of v = c"
    using b3 by (metis char_of_quasi_inj mod_mod_trivial char_of_char)
  show ?thesis unfolding quantum_bytes_def qv Let_def using b1 c2 c3 by simp
qed


lemma quantum_bytes3:
  fixes a b :: char
  defines "v \<equiv> (of_char a * 65536 + of_char b * 256 :: nat)"
  shows "quantum_bytes [v div 262144 mod 64, v div 4096 mod 64, v div 64 mod 64] = [a, b]"
proof -
  have v0: "v = of_char a * 65536 + of_char b * 256 + of_char (CHR 0x00)"
    unfolding v_def by simp
  have lt: "v < 16777216" unfolding v0 by (rule of_char_val_lt)
  have m: "v mod 64 = 0" unfolding v_def by simp
  have qv: "quantum_val [v div 262144 mod 64, v div 4096 mod 64, v div 64 mod 64] = v"
    unfolding quantum_val3 using base64_digits[OF lt] m by linarith
  have b1: "v div 65536 = of_char a" unfolding v0
    by (rule bytes_of_val(1)[OF of_char_lt of_char_lt])
  have b2: "v div 256 mod 256 = of_char b" unfolding v0
    by (rule bytes_of_val(2)[OF of_char_lt of_char_lt])
  have c2: "char_of (v div 256) = b"
    using b2 by (metis char_of_quasi_inj mod_mod_trivial char_of_char)
  show ?thesis unfolding quantum_bytes_def qv Let_def using b1 c2 by simp
qed

lemma quantum_bytes2:
  fixes a :: char
  defines "v \<equiv> (of_char a * 65536 :: nat)"
  shows "quantum_bytes [v div 262144 mod 64, v div 4096 mod 64] = [a]"
proof -
  have v0: "v = of_char a * 65536 + of_char (CHR 0x00) * 256 + of_char (CHR 0x00)"
    unfolding v_def by simp
  have lt: "v < 16777216" unfolding v0 by (rule of_char_val_lt)
  have m: "v mod 64 = 0" unfolding v_def by simp
  have m2: "v div 64 mod 64 = 0" unfolding v_def by simp
  have qv: "quantum_val [v div 262144 mod 64, v div 4096 mod 64] = v"
    unfolding quantum_val2 using base64_digits[OF lt] m m2 by linarith
  have b1: "v div 65536 = of_char a" unfolding v0
    by (rule bytes_of_val(1)[OF of_char_lt of_char_lt])
  show ?thesis unfolding quantum_bytes_def qv Let_def using b1 by simp
qed

lemma decode_EncodeToString: "decode [] (EncodeToString bs) = Inr bs"
proof (induction bs rule: EncodeToString.induct)
  case (1 a b c rest)
  show ?case
    unfolding EncodeToString.simps Let_def decode_quantum4 quantum_bytes4
    using "1.IH" by simp
next
  case (2 a b)
  show ?case
    unfolding EncodeToString.simps Let_def decode_quantum3 quantum_bytes3 by simp
next
  case (3 a)
  show ?case
    unfolding EncodeToString.simps Let_def decode_quantum2 quantum_bytes2 by simp
next
  case 4
  show ?case by simp
qed

lemma length_EncodeToString: "length (EncodeToString bs) = 4 * ((length bs + 2) div 3)"
proof (induction bs rule: EncodeToString.induct)
  case (1 a b c rest)
  have "(length rest + 5) div 3 = Suc ((length rest + 2) div 3)" by presburger
  then show ?case using "1.IH" by (simp add: Let_def add.commute)
qed (simp_all add: Let_def)

section \<open>The body-only serializer\<close>

lemma validMethod_POST: "validMethod MethodPost"
  by (simp add: validMethod_def MethodPost_def is_token_char_def token_chars_def)

lemma no_ctl_slash: "\<not> list_ex is_ctl_byte ''/''"
  by (simp add: is_ctl_byte_def)

lemma http_NewRequest_POST:
  "http_NewRequest MethodPost ''/'' body =
     Inr \<lparr>Method = MethodPost, URL = ''/'', Header = [],
          Body = Some (Reader body), ContentLength = int (length body)\<rparr>"
  unfolding http_NewRequest_def using validMethod_POST no_ctl_slash by simp

lemma Deserialize_encoded_body:
  "Deserialize s (encoded_body s bs) =
     Inr \<lparr>Method = MethodPost, URL = ''/'', Header = [],
          Body = Some (Reader bs), ContentLength = int (length bs)\<rparr>"
  unfolding Deserialize_def encoded_body_def Let_def http_NewRequest_POST
  by (simp add: DecodeString_def decode_EncodeToString)

lemma Serialize_readable:
  assumes "body_bytes rq = Inr bs"
  shows "Serialize s (Some rq) =
           (if 256 * 1024 < length (encoded_body s bs) then Inl ErrTooLarge
            else Inr (encoded_body s bs))"
  using assms
  by (auto simp add: Serialize_def body_bytes_def encoded_body_def Let_def
      split: option.splits sum.splits)

text \<open>
  Claim C8.  For a request whose body reads as \<open>bs\<close>: \<open>Serialize\<close> fails with
  \<open>ErrTooLarge\<close> exactly when the encoded payload is longer than 256 KiB; otherwise it
  succeeds with the encoded payload, and \<open>Deserialize\<close> of that payload (same base64
  setting) succeeds with a request whose body bytes are \<open>bs\<close>.
\<close>

theorem Serialize_Deserialize_roundtrip:
  assumes "body_bytes rq = Inr bs"
  shows "(Serialize s (Some rq) = Inl ErrTooLarge) = (256 * 1024 < length (encoded_body s bs)) \<and>
         (length (encoded_body s bs) \<le> 256 * 1024 \<longrightarrow>
            Serialize s (Some rq) = Inr (encoded_body s bs) \<and>
            (\<exists>r. Deserialize s (encoded_body s bs) = Inr r \<and> body_bytes r = Inr bs))"
  unfolding Serialize_readable[OF assms] Deserialize_encoded_body
  by (simp add: body_bytes_def Deserialize_encoded_body)


theorem Serialize_Deserialize_roundtrip_witness:
  "body_bytes tiny_request = Inr ''hi'' \<and>
   Serialize \<lparr>NoBase64 = False\<rparr> (Some tiny_request) = Inr ''aGk='' \<and>
   (\<exists>r. Deserialize \<lparr>NoBase64 = False\<rparr> ''aGk='' = Inr r \<and> body_bytes r = Inr ''hi'')"
proof -
  have b: "body_bytes tiny_request = Inr ''hi''"
    by (simp add: body_bytes_def tiny_request_def)
  have e: "encoded_body \<lparr>NoBase64 = False\<rparr> ''hi'' = ''aGk=''"
    by (simp add: encoded_body_def encodeChar_def encodeStd_def padChar_def)
  show ?thesis
    using Serialize_Deserialize_roundtrip[OF b, of "\<lparr>NoBase64 = False\<rparr>", unfolded e] b
    by auto
qed

text \<open>
  Claim C9, as stated, fails: \<open>{}\<close> is not valid base64, yet \<open>Deserialize\<close> in
  base64 mode returns a request carrying it unchanged; no payload makes it fail.
\<close>

theorem Deserialize_malformed_counterexample:
  "DecodeString ''{}'' = Inl CorruptInputError \<and>
   Deserialize \<lparr>NoBase64 = False\<rparr> ''{}'' =
     Inr \<lparr>Method = ''POST'', URL = ''/'', Header = [],
          Body = Some (Reader ''{}''), ContentLength = 2\<rparr> \<and>
   \<not> (\<exists>s content e. Deserialize s content = Inl e)"
proof -
  have d: "DecodeString ''{}'' = Inl CorruptInputError"
    by code_simp
  have "Deserialize \<lparr>NoBase64 = False\<rparr> ''{}'' =
     Inr \<lparr>Method = ''POST'', URL = ''/'', Header = [],
          Body = Some (Reader ''{}''), ContentLength = 2\<rparr>"
    unfolding Deserialize_def Let_def http_NewRequest_POST d by (simp add: MethodPost_def)
  moreover have "\<not> (\<exists>s content e. Deserialize s content = Inl e)"
    unfolding Deserialize_def Let_def http_NewRequest_POST by simp
  ultimately show ?thesis using d by simp
qed

text \<open>
  Claim C9, amended.  \<open>Deserialize\<close> returns a request for every payload; a payload
  that does not decode as base64 becomes the request body as it is.
\<close>

theorem Deserialize_falls_back_to_raw:
  "(\<exists>r. Deserialize s content = Inr r) \<and>
   (DecodeString content = Inl e \<longrightarrow>
      (\<exists>r. Deserialize s content = Inr r \<and> body_bytes r = Inr content))"
  unfolding Deserialize_def Let_def http_NewRequest_POST
  by (simp add: body_bytes_def)

theorem Deserialize_falls_back_to_raw_witness:
  "DecodeString ''{}'' = Inl CorruptInputError \<and>
   (\<exists>r. Deserialize \<lparr>NoBase64 = False\<rparr> ''{}'' = Inr r \<and> body_bytes r = Inr ''{}'')"
proof -
  have d: "DecodeString ''{}'' = Inl CorruptInputError"
    by code_simp
  show ?thesis
    using Deserialize_falls_back_to_raw[of "\<lparr>NoBase64 = False\<rparr>" "''{}''" CorruptInputError] d
    by simp
qed

section \<open>Closing a stream\<close>

lemma cancel_and_wait_calls: "calls (fst (cancel_and_wait w c)) = joined w c"
  by (simp add: cancel_and_wait_def joined_def)

lemma cancel_and_wait_fields:
  "respBuffer (snd (cancel_and_wait w c)) = respBuffer c"
  "respHandler (snd (cancel_and_wait w c)) = respHandler c"
  "req (snd (cancel_and_wait w c)) = req c"
  "msg (snd (cancel_and_wait w c)) = msg c"
  "delete_replies (fst (cancel_and_wait w c)) = delete_replies w"
  "extend_replies (fst (cancel_and_wait w c)) = extend_replies w"
  "clock (fst (cancel_and_wait w c)) = clock w"
  "reads (fst (cancel_and_wait w c)) = reads w"
  by (simp_all add: cancel_and_wait_def)

lemma observe_joined: "observe (snd (cancel_and_wait w c)) resp rest = observe c resp rest"
  by (simp add: observe_def cancel_and_wait_def split: option.splits)

lemma filter_joined:
  "filter is_delete (joined w c) = filter is_delete (calls w)"
  "filter is_extend (joined w c) = filter is_extend (calls w)"
  by (simp_all add: joined_def)

text \<open>
  Claim C1.  When the response buffer holds bytes that \<^verbatim>\<open>http.ReadResponse\<close>
  parses as a response with a status from 200 to 299 and the response handler, if there
  is one, reports no error, \<open>Close\<close> returns, and what it adds to the log after joining
  the renewal is exactly one delete call for the message's id (so no extend call); it
  returns the delete call's failure, wrapped, when there is one, and nil otherwise.
\<close>

theorem Close_2xx_deletes_once:
  assumes ne: "respBuffer c \<noteq> []"
    and parse: "read_response g (req c) (respBuffer c) = (Inr resp, rest)"
    and ok: "200 \<le> StatusCode resp" "StatusCode resp < 300"
    and obs: "observe c resp rest = (None, rest')"
  shows "\<exists>w' c'. Close g w c =
            Some (map_option (Wrapped ''failed to delete message'')
                    (delete_replies w (length (filter is_delete (calls w)))), w', c') \<and>
          calls w' = joined w c @ [CallDelete (ID (msg c))]"
proof -
  obtain w1 c1 where cw: "cancel_and_wait w c = (w1, c1)" by (cases "cancel_and_wait w c")
  have f: "respBuffer c1 = respBuffer c" "req c1 = req c"
    "observe c1 resp rest = observe c resp rest"
    "msg c1 = msg c" "delete_replies w1 = delete_replies w" "calls w1 = joined w c"
    using cancel_and_wait_fields[of w c] cancel_and_wait_calls[of w c] observe_joined[of w c] cw
    by simp_all
  have s: "status_is_2xx (StatusCode resp)" using ok by (simp add: status_is_2xx_def)
  show ?thesis
    unfolding Close_def cw
    using f ne parse s obs
    by (cases "delete_replies w (length (filter is_delete (calls w)))")
       (simp_all add: Let_def DeleteMessage_def filter_joined)
qed

theorem Close_2xx_deletes_once_witness:
  "respBuffer (example_conn response_200 None) \<noteq> [] \<and>
   read_response example_lib (req (example_conn response_200 None))
     (respBuffer (example_conn response_200 None)) = (Inr (parsed_200 []), []) \<and>
   observe (example_conn response_200 None) (parsed_200 []) [] = (None, []) \<and>
   (\<exists>w' c'. Close example_lib (example_world (\<lambda>k. Some not_found) (\<lambda>k. Inl not_found))
               (example_conn response_200 None) =
             Some (Some (Wrapped ''failed to delete message'' not_found), w', c') \<and>
           calls w' = [CancelWait, CallDelete ''m1''])"
proof -
  let ?c = "example_conn response_200 None"
  have ne: "respBuffer ?c \<noteq> []"
    by (simp add: example_conn_def response_200_def)
  have p: "read_response example_lib (req ?c) (respBuffer ?c) = (Inr (parsed_200 []), [])"
    by (simp add: example_conn_def example_lib_def table_lib_def)
  have s: "200 \<le> StatusCode (parsed_200 [])" "StatusCode (parsed_200 []) < 300"
    by (simp_all add: parsed_200_def)
  have ob: "observe ?c (parsed_200 []) [] = (None, [])"
    by (simp add: observe_def example_conn_def)
  show ?thesis
    using Close_2xx_deletes_once[OF ne p s ob,
        of "example_world (\<lambda>k. Some not_found) (\<lambda>k. Inl not_found)"] ne p ob
    by (simp add: joined_def example_world_def example_conn_def example_msg_def)
qed

text \<open>
  Claim C4.  When the response handler reports an error for the parsed response,
  whatever its status, \<open>Close\<close> returns that error, wrapped, and adds no call to the
  queue to the log: the message is not deleted.
\<close>

theorem Close_observer_error_no_delete:
  assumes ne: "respBuffer c \<noteq> []"
    and parse: "read_response g (req c) (respBuffer c) = (Inr resp, rest)"
    and err: "observe c resp rest = (Some err, rest')"
  shows "\<exists>w' c'. Close g w c = Some (Some (Wrapped ''failed to handle response'' err), w', c') \<and>
          calls w' = joined w c"
proof -
  obtain w1 c1 where cw: "cancel_and_wait w c = (w1, c1)" by (cases "cancel_and_wait w c")
  have f: "respBuffer c1 = respBuffer c" "req c1 = req c"
    "observe c1 resp rest = observe c resp rest" "calls w1 = joined w c"
    using cancel_and_wait_fields[of w c] cancel_and_wait_calls[of w c] observe_joined[of w c] cw
    by simp_all
  show ?thesis
    unfolding Close_def cw
    using f ne parse err by (simp add: Let_def)
qed

theorem Close_observer_error_no_delete_witness:
  "respBuffer (example_conn response_200 (Some rejecting_handler)) \<noteq> [] \<and>
   read_response example_lib (req (example_conn response_200 (Some rejecting_handler)))
     (respBuffer (example_conn response_200 (Some rejecting_handler))) =
     (Inr (parsed_200 []), []) \<and>
   observe (example_conn response_200 (Some rejecting_handler)) (parsed_200 []) [] =
     (Some (ErrOther ''rejected''), []) \<and>
   (\<exists>w' c'. Close example_lib (example_world (\<lambda>k. None) (\<lambda>k. Inl not_found))
               (example_conn response_200 (Some rejecting_handler)) =
             Some (Some (Wrapped ''failed to handle response'' (ErrOther ''rejected'')), w', c') \<and>
           calls w' = [CancelWait])"
proof -
  let ?c = "example_conn response_200 (Some rejecting_handler)"
  have ne: "respBuffer ?c \<noteq> []"
    by (simp add: example_conn_def response_200_def)
  have p: "read_response example_lib (req ?c) (respBuffer ?c) = (Inr (parsed_200 []), [])"
    by (simp add: example_conn_def example_lib_def table_lib_def)
  have ob: "observe ?c (parsed_200 []) [] = (Some (ErrOther ''rejected''), [])"
    by (simp add: observe_def example_conn_def rejecting_handler_def)
  show ?thesis
    using Close_observer_error_no_delete[OF ne p ob,
        of "example_world (\<lambda>k. None) (\<lambda>k. Inl not_found)"] ne p ob
    by (simp add: joined_def example_world_def example_conn_def)
qed

section \<open>The retry-after loop\<close>

lemma retry_step_fields:
  "fst (time_Until w t) = time_Sub t (clock w (reads w))"
  "snd (time_Until w t) = w\<lparr>reads := Suc (reads w)\<rparr>"
  by (simp_all add: time_Until_def time_Now_def)

lemma Extend_fields:
  "fst (ExtendVisibilityTimeout w i) = extend_replies w (n_extend w)"
  "snd (ExtendVisibilityTimeout w i) = w\<lparr>calls := calls w @ [CallExtend i]\<rparr>"
  by (simp_all add: ExtendVisibilityTimeout_def n_extend_def)


lemma step_world_simps [simp]:
  "n_extend (step_world w c) = Suc (n_extend w)"
  "reads (step_world w c) = Suc (reads w)"
  "clock (step_world w c) = clock w"
  "extend_replies (step_world w c) = extend_replies w"
  "calls (step_world w c) = calls w @ [CallExtend (ID (msg c))]"
  by (simp_all add: step_world_def n_extend_def)

lemma set_lease_simps [simp]:
  "ID (msg (set_lease c m)) = ID (msg c)"
  "VisibilityTimeoutAt (msg (set_lease c m)) = VisibilityTimeoutAt m"
  "respBuffer (set_lease c m) = respBuffer c"
  by (simp_all add: set_lease_def)









section \<open>Closing on a response that asks for a retry\<close>





















section \<open>Closing a stream twice\<close>












section \<open>Setting a deadline\<close>













end
